theory Spec2Isabelle
  imports Main "HOL-Library.Word"
begin

section \<open>The ipcache BPF listener of cilium: change listener and garbage collection\<close>

text \<open>
  The development embeds \<^verbatim>\<open>OnIPIdentityCacheChange\<close>,
  \<^verbatim>\<open>updateStaleEntriesFunction\<close> and \<^verbatim>\<open>garbageCollect\<close> of the
  datapath ipcache listener. Everything the listener calls but does not define (the BPF
  map, the in-memory ipcache, the key codec, the node's external address) is either a
  field of the environment record \<open>env\<close> or a definition marked as modelled from the
  specification.
\<close>

subsection \<open>Go's \<^verbatim>\<open>net.IP\<close>\<close>

type_synonym byte = "8 word"

text \<open>
  \<^verbatim>\<open>net.IP\<close> and \<^verbatim>\<open>net.IPMask\<close> are byte slices; \<open>None\<close> is the nil slice.
\<close>

type_synonym IP = "byte list option"
type_synonym IPMask = "byte list option"

record IPNet =
  ipnet_IP :: IP
  ipnet_Mask :: IPMask

definition bytes :: "byte list option \<Rightarrow> byte list" where
  "bytes ip = (case ip of None \<Rightarrow> [] | Some bs \<Rightarrow> bs)"

definition IPv4len :: nat where
  "IPv4len = 4"

definition IPv6len :: nat where
  "IPv6len = 16"

definition v4InV6Prefix :: "byte list" where
  "v4InV6Prefix = [0, 0, 0, 0, 0, 0, 0, 0, 0, 0, 0xff, 0xff]"

definition isZeros :: "byte list \<Rightarrow> bool" where
  "isZeros p = list_all (\<lambda>b. b = 0) p"

text \<open>
  \<^verbatim>\<open>func (ip IP) To4() IP\<close> of Go's package net: a 4-byte slice is returned as it is,
  a 16-byte slice with the IPv4-in-IPv6 prefix yields its last four bytes
  (\<^verbatim>\<open>ip[12:16]\<close>), anything else yields nil.
\<close>

definition To4 :: "IP \<Rightarrow> IP" where
  "To4 ip =
     (let bs = bytes ip in
      if length bs = IPv4len then Some bs
      else if length bs = IPv6len \<and> isZeros (take 10 bs) \<and> bs ! 10 = 0xff \<and> bs ! 11 = 0xff
        then Some (take 4 (drop 12 bs))
      else None)"

text \<open>
  \<^verbatim>\<open>func (ip IP) Equal(x IP) bool\<close> of Go's package net: an IPv4 address and the same
  address in 16-byte form are equal.
\<close>

definition Equal :: "IP \<Rightarrow> IP \<Rightarrow> bool" where
  "Equal ip x =
     (let a = bytes ip; b = bytes x in
      if length a = length b then a = b
      else if length a = IPv4len \<and> length b = IPv6len
        then take 12 b = v4InV6Prefix \<and> a = drop 12 b
      else if length a = IPv6len \<and> length b = IPv4len
        then take 12 a = v4InV6Prefix \<and> drop 12 a = b
      else False)"

text \<open>
  Go's builtin \<^verbatim>\<open>copy(dst, src)\<close>: the first \<open>min (len dst) (len src)\<close> bytes of
  \<open>dst\<close> are overwritten.
\<close>

definition copy :: "byte list \<Rightarrow> byte list \<Rightarrow> byte list" where
  "copy dst src = (let n = min (length dst) (length src) in take n src @ drop n dst)"

subsection \<open>Data of the collaborating packages\<close>

text \<open>
  Modelled from the spec: the declaration of \<^verbatim>\<open>identity.NumericIdentity\<close> is not
  part of the listener's file; the specification calls it an unsigned integer stored in a
  32-bit field, so \<^verbatim>\<open>uint32(newID)\<close> is the identity conversion.
\<close>

type_synonym NumericIdentity = "32 word"

text \<open>
  Modelled from the spec: the declaration of \<^verbatim>\<open>ipcacheMap.RemoteEndpointInfo\<close> is
  missing; the specification gives the value as a 32-bit identity and a 4-byte tunnel
  endpoint whose absence is encoded as all-zero; \<open>zeroTunnelEndpoint\<close> is the Go zero
  value of that field.
\<close>

record RemoteEndpointInfo =
  SecurityIdentity :: "32 word"
  TunnelEndpoint :: "byte list"

definition zeroTunnelEndpoint :: "byte list" where
  "zeroTunnelEndpoint = [0, 0, 0, 0]"

text \<open>
  Modelled from the spec: the enumeration \<^verbatim>\<open>ipcache.Source\<close> is declared outside the
  listener's file. The listener names two of its values; every other provenance tag
  (cluster metadata and so on) is \<open>FromOther\<close>.
\<close>

datatype Source = FromKVStore | FromAgentLocal | FromOther nat

text \<open>
  Modelled from the spec: \<^verbatim>\<open>ipcache.Identity\<close>, the entry returned by a lookup; only
  its \<^verbatim>\<open>Source\<close> field is read by the listener.
\<close>

record Identity =
  ID :: NumericIdentity
  Source :: Source

text \<open>
  Modelled from the spec: \<^verbatim>\<open>ipcache.CacheModification\<close> is Upsert, Delete, or some
  other kind the listener does not know.
\<close>

datatype CacheModification = Upsert | Delete | OtherModification string

subsection \<open>Observable state\<close>

text \<open>
  The calls the listener makes on its collaborators, in program order: the read lock of
  the in-memory ipcache and the three operations of the BPF map.
\<close>

datatype 'k event =
    RLock
  | RUnlock
  | DumpCall
  | UpdateCall 'k RemoteEndpointInfo
  | DeleteCall 'k

datatype level = Debug | Warning

text \<open>
  \<open>bpfMap\<close> is the content of the map behind \<^verbatim>\<open>l.bpfMap\<close>, \<open>trace\<close> the calls made so
  far, \<open>logged\<close> the log records written so far (level and message; the structured
  fields of a record are not modelled).
\<close>

record 'k state =
  bpfMap :: "'k \<rightharpoonup> RemoteEndpointInfo"
  trace :: "'k event list"
  logged :: "(level \<times> string) list"

text \<open>
  What the listener takes from its surroundings. \<open>NewKey\<close> and \<open>KeyString\<close> are the key
  codec of the map package (\<^verbatim>\<open>ipcacheMap.NewKey\<close>, \<^verbatim>\<open>Key.String\<close>),
  \<open>GetExternalIPv4\<close> the value of \<^verbatim>\<open>node.GetExternalIPv4()\<close>,
  \<open>LookupByPrefixRLocked\<close> the lookup of the in-memory ipcache. \<open>updateErr\<close> and
  \<open>deleteErr\<close> say for which arguments the point operations of the map fail and with
  which error; \<open>dumpScan\<close> is the sequence of entries a full scan passes to its callback
  and \<open>dumpErr\<close> the error the scan returns. \<open>rangeOrder\<close> is the order in which Go's
  \<^verbatim>\<open>range\<close> walks the keys of a map, which the language leaves unspecified.
\<close>

record 'k env =
  NewKey :: "IP \<Rightarrow> IPMask \<Rightarrow> 'k"
  KeyString :: "'k \<Rightarrow> string"
  GetExternalIPv4 :: IP
  LookupByPrefixRLocked :: "string \<Rightarrow> Identity \<times> bool"
  updateErr :: "'k \<Rightarrow> RemoteEndpointInfo \<Rightarrow> string option"
  deleteErr :: "'k \<Rightarrow> string option"
  dumpScan :: "('k \<rightharpoonup> RemoteEndpointInfo) \<Rightarrow> ('k \<times> RemoteEndpointInfo) list"
  dumpErr :: "string option"
  rangeOrder :: "(string \<rightharpoonup> 'k) \<Rightarrow> string list"

definition logDebug :: "string \<Rightarrow> 'k state \<Rightarrow> 'k state" where
  "logDebug msg s = s\<lparr>logged := logged s @ [(Debug, msg)]\<rparr>"

definition logWarning :: "string \<Rightarrow> 'k state \<Rightarrow> 'k state" where
  "logWarning msg s = s\<lparr>logged := logged s @ [(Warning, msg)]\<rparr>"

definition call :: "'k event \<Rightarrow> 'k state \<Rightarrow> 'k state" where
  "call e s = s\<lparr>trace := trace s @ [e]\<rparr>"

subsection \<open>The BPF map\<close>

text \<open>
  Modelled from the spec: \<^verbatim>\<open>Map.Update\<close> of the BPF map package is missing. The
  specification describes a point update that replaces the whole value under the key
  and may fail; a failed update leaves the map as it was.
\<close>

definition bpfMap_Update ::
  "'k env \<Rightarrow> 'k \<Rightarrow> RemoteEndpointInfo \<Rightarrow> 'k state \<Rightarrow> string option \<times> 'k state" where
  "bpfMap_Update env k v s =
     (let s' = call (UpdateCall k v) s in
      case updateErr env k v of
        Some e \<Rightarrow> (Some e, s')
      | None \<Rightarrow> (None, s'\<lparr>bpfMap := (bpfMap s')(k \<mapsto> v)\<rparr>))"

text \<open>
  Modelled from the spec: \<^verbatim>\<open>Map.Delete\<close> of the BPF map package is missing. The
  specification describes a point delete that may fail; a failed delete leaves the map
  as it was. The error of the call is \<open>deleteErr env k\<close>; the errors the specification
  allows for it are \<open>specDeleteErr\<close> below.
\<close>

definition bpfMap_Delete :: "'k env \<Rightarrow> 'k \<Rightarrow> 'k state \<Rightarrow> string option \<times> 'k state" where
  "bpfMap_Delete env k s =
     (let s' = call (DeleteCall k) s in
      case deleteErr env k of
        Some e \<Rightarrow> (Some e, s')
      | None \<Rightarrow> (None, s'\<lparr>bpfMap := (bpfMap s')(k := None)\<rparr>))"


text \<open>
  Modelled from the spec: \<^verbatim>\<open>Map.DumpWithCallback\<close> of the BPF map package is missing.
  The specification describes a full synchronous scan that passes each entry to the
  callback and returns an error; the scan itself does not write to the map. The callback
  works on an accumulator \<open>acc\<close> (the variables it has captured).
\<close>

definition bpfMap_DumpWithCallback ::
  "'k env \<Rightarrow> ('a \<Rightarrow> 'k \<times> RemoteEndpointInfo \<Rightarrow> 'a) \<Rightarrow> 'a \<Rightarrow> 'k state
     \<Rightarrow> ('a \<times> string option) \<times> 'k state" where
  "bpfMap_DumpWithCallback env cb acc s =
     (let s' = call DumpCall s in
      ((foldl cb acc (dumpScan env (bpfMap s')), dumpErr env), s'))"

subsection \<open>The change listener\<close>

definition OnIPIdentityCacheChange ::
  "'k env \<Rightarrow> CacheModification \<Rightarrow> IPNet \<Rightarrow> IP \<Rightarrow> IP \<Rightarrow> NumericIdentity option
     \<Rightarrow> NumericIdentity \<Rightarrow> 'k state \<Rightarrow> 'k state" where
  "OnIPIdentityCacheChange env modType cidr oldHostIP newHostIP oldID newID s0 =
     (let s = logDebug ''Daemon notified of IP-Identity cache state change'' s0;
          key = NewKey env (ipnet_IP cidr) (ipnet_Mask cidr)
      in case modType of
           Upsert \<Rightarrow>
             (let value0 = \<lparr>SecurityIdentity = newID, TunnelEndpoint = zeroTunnelEndpoint\<rparr>;
                  value =
                    (if newHostIP \<noteq> None then
                       (let externalIP = GetExternalIPv4 env;
                            ip4 = To4 newHostIP
                        in if ip4 \<noteq> None \<and> \<not> Equal ip4 externalIP
                           then value0\<lparr>TunnelEndpoint := copy (TunnelEndpoint value0) (bytes ip4)\<rparr>
                           else value0)
                     else value0);
                  (err, s') = bpfMap_Update env key value s
              in if err \<noteq> None then logWarning ''unable to update bpf map'' s' else s')
         | Delete \<Rightarrow>
             (let (err, s') = bpfMap_Delete env key s
              in if err \<noteq> None then logWarning ''unable to delete from bpf map'' s' else s')
         | OtherModification _ \<Rightarrow>
             logWarning ''cache modification type not supported'' s)"

subsection \<open>Garbage collection\<close>

text \<open>
  The callback of the sweep. Its captured variable \<^verbatim>\<open>keysToRemove\<close>, a Go map from
  the key's string to the key, is the accumulator.
\<close>

definition updateStaleEntriesFunction ::
  "'k env \<Rightarrow> (string \<rightharpoonup> 'k) \<Rightarrow> 'k \<times> RemoteEndpointInfo \<Rightarrow> (string \<rightharpoonup> 'k)" where
  "updateStaleEntriesFunction env keysToRemove kv =
     (let k = fst kv;
          keyToIP = KeyString env k;
          (i, exists) = LookupByPrefixRLocked env keyToIP
      in if \<not> exists then
           (case Source i of
              FromKVStore \<Rightarrow> keysToRemove(keyToIP \<mapsto> k)
            | FromAgentLocal \<Rightarrow> keysToRemove(keyToIP \<mapsto> k)
            | FromOther _ \<Rightarrow> keysToRemove)
         else keysToRemove)"

datatype 'k gc_error = DumpError string | DeleteError 'k string

text \<open>
  The deletion loop of \<^verbatim>\<open>garbageCollect\<close> over the keys in the order \<^verbatim>\<open>range\<close>
  yields them: the first failing delete returns from the function.
\<close>

fun deleteKeys :: "'k env \<Rightarrow> 'k list \<Rightarrow> 'k state \<Rightarrow> 'k gc_error option \<times> 'k state" where
  "deleteKeys env [] s = (None, s)"
| "deleteKeys env (k # ks) s =
     (let s1 = logDebug ''deleting from ipcache BPF map'' s;
          (err, s2) = bpfMap_Delete env k s1
      in case err of
           Some e \<Rightarrow> (Some (DeleteError k e), s2)
         | None \<Rightarrow> deleteKeys env ks s2)"

text \<open>
  The values of \<^verbatim>\<open>keysToRemove\<close> in the order of \<^verbatim>\<open>range\<close>.
\<close>

definition rangeValues :: "'k env \<Rightarrow> (string \<rightharpoonup> 'k) \<Rightarrow> 'k list" where
  "rangeValues env keysToRemove = List.map_filter keysToRemove (rangeOrder env keysToRemove)"

text \<open>
  The body of \<^verbatim>\<open>garbageCollect\<close> between taking the read lock and the deferred
  unlock.
\<close>

definition garbageCollect_locked :: "'k env \<Rightarrow> 'k state \<Rightarrow> 'k gc_error option \<times> 'k state" where
  "garbageCollect_locked env s =
     (let ((keysToRemove, err), s') =
            bpfMap_DumpWithCallback env (updateStaleEntriesFunction env) Map.empty s
      in case err of
           Some e \<Rightarrow> (Some (DumpError e), s')
         | None \<Rightarrow> deleteKeys env (rangeValues env keysToRemove) s')"

text \<open>
  \<^verbatim>\<open>garbageCollect\<close>: \<^verbatim>\<open>RLock\<close>, then \<^verbatim>\<open>defer RUnlock\<close>, which runs when the
  function returns, on every path.
\<close>

definition garbageCollect :: "'k env \<Rightarrow> 'k state \<Rightarrow> 'k gc_error option \<times> 'k state" where
  "garbageCollect env s0 =
     (let s1 = logDebug ''Running garbage collection for BPF IPCache'' s0;
          s2 = call RLock s1;
          (r, s3) = garbageCollect_locked env s2
      in (r, call RUnlock s3))"

subsection \<open>Concrete inputs\<close>

text \<open>
  A listener whose keys are the pair of address and mask it was given, on a node whose
  external address is 198.51.100.1 and whose map never fails.
\<close>

definition listenerEnv :: "(IP \<times> IPMask) env" where
  "listenerEnv =
     \<lparr>NewKey = Pair,
      KeyString = (\<lambda>_. []),
      GetExternalIPv4 = Some [198, 51, 100, 1],
      LookupByPrefixRLocked = (\<lambda>_. (\<lparr>ID = 0, Source = FromOther 0\<rparr>, False)),
      updateErr = (\<lambda>_ _. None),
      deleteErr = (\<lambda>_. None),
      dumpScan = (\<lambda>_. []),
      dumpErr = None,
      rangeOrder = (\<lambda>_. [])\<rparr>"

definition emptyState :: "'k state" where
  "emptyState = \<lparr>bpfMap = Map.empty, trace = [], logged = []\<rparr>"

text \<open>The prefix 10.0.0.0/24.\<close>

definition prefix24 :: IPNet where
  "prefix24 = \<lparr>ipnet_IP = Some [10, 0, 0, 0], ipnet_Mask = Some [255, 255, 255, 0]\<rparr>"

text \<open>The host 203.0.113.5 in the 16-byte form that \<^verbatim>\<open>net.ParseIP\<close> returns.\<close>

definition host16 :: IP where
  "host16 = Some [0, 0, 0, 0, 0, 0, 0, 0, 0, 0, 0xff, 0xff, 203, 0, 113, 5]"

text \<open>The IPv6 host 2001:db8::1.\<close>

definition hostV6 :: IP where
  "hostV6 = Some [0x20, 0x01, 0x0d, 0xb8, 0, 0, 0, 0, 0, 0, 0, 0, 0, 0, 0, 1]"

text \<open>The same listener on a map whose point operations all fail.\<close>

definition failingEnv :: "(IP \<times> IPMask) env" where
  "failingEnv = listenerEnv\<lparr>updateErr := (\<lambda>_ _. Some ''E2BIG''), deleteErr := (\<lambda>_. Some ''EPERM'')\<rparr>"




text \<open>
  The keys of the point deletes in a trace that are issued while the read lock of the
  in-memory ipcache is held; \<open>held\<close> says whether the lock is held where the trace
  starts.
\<close>

fun deletesWhileLocked :: "bool \<Rightarrow> 'k event list \<Rightarrow> 'k list" where
  "deletesWhileLocked held [] = []"
| "deletesWhileLocked held (RLock # es) = deletesWhileLocked True es"
| "deletesWhileLocked held (RUnlock # es) = deletesWhileLocked False es"
| "deletesWhileLocked held (DeleteCall k # es) =
     (if held then k # deletesWhileLocked held es else deletesWhileLocked held es)"
| "deletesWhileLocked held (e # es) = deletesWhileLocked held es"

text \<open>
  A sweep over a map with four entries whose keys are represented by their canonical
  strings. The in-memory ipcache knows 10.0.0.0/24 only. A miss of \<open>gcLookup\<close> returns an
  entry whose source is the key-value store, a miss of \<open>gcLookupOther\<close> one with another
  source. The scan visits the entries in the order of \<open>gcKeys\<close>, \<^verbatim>\<open>range\<close> walks the
  marked keys in the opposite order.
\<close>

definition gcKeys :: "string list" where
  "gcKeys = [''10.0.0.0/24'', ''10.0.1.0/24'', ''10.0.2.0/24'', ''10.0.3.0/24'']"

definition gcLookup :: "string \<Rightarrow> Identity \<times> bool" where
  "gcLookup p =
     (if p = ''10.0.0.0/24'' then (\<lparr>ID = 1000, Source = FromKVStore\<rparr>, True)
      else (\<lparr>ID = 0, Source = FromKVStore\<rparr>, False))"

definition gcLookupOther :: "string \<Rightarrow> Identity \<times> bool" where
  "gcLookupOther p =
     (if p = ''10.0.0.0/24'' then (\<lparr>ID = 1000, Source = FromKVStore\<rparr>, True)
      else (\<lparr>ID = 0, Source = FromOther 0\<rparr>, False))"

definition gcEnv :: "string env" where
  "gcEnv =
     \<lparr>NewKey = (\<lambda>_ _. []),
      KeyString = (\<lambda>k. k),
      GetExternalIPv4 = None,
      LookupByPrefixRLocked = gcLookup,
      updateErr = (\<lambda>_ _. None),
      deleteErr = (\<lambda>_. None),
      dumpScan = (\<lambda>m. List.map_filter (\<lambda>k. map_option (Pair k) (m k)) gcKeys),
      dumpErr = None,
      rangeOrder = (\<lambda>m. filter (\<lambda>p. m p \<noteq> None) (rev gcKeys))\<rparr>"

definition gcValue :: RemoteEndpointInfo where
  "gcValue = \<lparr>SecurityIdentity = 1000, TunnelEndpoint = [0, 0, 0, 0]\<rparr>"

definition gcState :: "string state" where
  "gcState =
     \<lparr>bpfMap = [''10.0.0.0/24'' \<mapsto> gcValue, ''10.0.1.0/24'' \<mapsto> gcValue,
                 ''10.0.2.0/24'' \<mapsto> gcValue, ''10.0.3.0/24'' \<mapsto> gcValue],
      trace = [], logged = []\<rparr>"

definition gcEnvOther :: "string env" where
  "gcEnvOther = gcEnv\<lparr>LookupByPrefixRLocked := gcLookupOther\<rparr>"

text \<open>The scan fails after the third entry.\<close>

definition gcEnvScanFails :: "string env" where
  "gcEnvScanFails = gcEnv\<lparr>dumpScan := (\<lambda>m. take 3 (dumpScan gcEnv m)), dumpErr := Some ''EIO''\<rparr>"

text \<open>The point delete of 10.0.2.0/24 fails.\<close>

definition gcEnvDeleteFails :: "string env" where
  "gcEnvDeleteFails =
     gcEnv\<lparr>deleteErr := (\<lambda>k. if k = ''10.0.2.0/24'' then Some ''EPERM'' else None)\<rparr>"

section \<open>Properties of the address functions\<close>

lemma To4_length: "To4 ip = Some bs \<Longrightarrow> length bs = 4"
  by (auto simp: To4_def IPv4len_def IPv6len_def Let_def split: if_splits)

lemma copy_zero4: "length bs = 4 \<Longrightarrow> copy zeroTunnelEndpoint bs = bs"
  by (simp add: copy_def zeroTunnelEndpoint_def)

lemma take12_prefix:
  assumes "length b = 16"
  shows "take 12 b = v4InV6Prefix \<longleftrightarrow> isZeros (take 10 b) \<and> b ! 10 = 0xff \<and> b ! 11 = 0xff"
proof -
  obtain x0 x1 x2 x3 x4 x5 x6 x7 x8 x9 x10 x11 x12 x13 x14 x15 where
    b: "b = [x0,x1,x2,x3,x4,x5,x6,x7,x8,x9,x10,x11,x12,x13,x14,x15]"
    using assms by (auto simp: length_Suc_conv eval_nat_numeral)
  show ?thesis
    unfolding b by (auto simp: v4InV6Prefix_def isZeros_def)
qed

text \<open>
  Comparing a 4-byte address with \<open>Equal\<close> is comparing it with the 4-byte form of the
  other address: the listener's test \<^verbatim>\<open>!ip4.Equal(externalIP)\<close> says that the
  external address has no 4-byte form or a different one.
\<close>

lemma Equal_To4:
  assumes "length a = 4"
  shows "Equal (Some a) x \<longleftrightarrow> To4 x = Some a"
proof -
  consider "length (bytes x) = 4" | "length (bytes x) = 16"
    | "length (bytes x) \<noteq> 4 \<and> length (bytes x) \<noteq> 16"
    by blast
  then show ?thesis
  proof cases
    case 1
    then show ?thesis
      using assms by (auto simp: Equal_def To4_def bytes_def IPv4len_def IPv6len_def Let_def)
  next
    case 2
    have d: "take 4 (drop 12 (bytes x)) = drop 12 (bytes x)"
      using 2 by simp
    show ?thesis
      using assms 2 take12_prefix [OF 2]
      by (auto simp: Equal_def To4_def IPv4len_def IPv6len_def Let_def d bytes_def)
  next
    case 3
    then show ?thesis
      using assms by (auto simp: Equal_def To4_def bytes_def IPv4len_def IPv6len_def Let_def)
  qed
qed

section \<open>The change listener\<close>

text \<open>
  The three branches of \<open>OnIPIdentityCacheChange\<close> as state transformers.
\<close>

lemma Upsert_unfold:
  "OnIPIdentityCacheChange env Upsert cidr oldHostIP newHostIP oldID newID s =
     (let key = NewKey env (ipnet_IP cidr) (ipnet_Mask cidr);
          v = \<lparr>SecurityIdentity = newID,
               TunnelEndpoint = (if newHostIP \<noteq> None \<and> To4 newHostIP \<noteq> None
                                    \<and> \<not> Equal (To4 newHostIP) (GetExternalIPv4 env)
                                 then bytes (To4 newHostIP) else zeroTunnelEndpoint)\<rparr>
      in (case updateErr env key v of
            Some e \<Rightarrow> s\<lparr>trace := trace s @ [UpdateCall key v],
                        logged := logged s @ [(Debug, ''Daemon notified of IP-Identity cache state change''),
                                              (Warning, ''unable to update bpf map'')]\<rparr>
          | None \<Rightarrow> s\<lparr>bpfMap := (bpfMap s)(key \<mapsto> v),
                      trace := trace s @ [UpdateCall key v],
                      logged := logged s @ [(Debug, ''Daemon notified of IP-Identity cache state change'')]\<rparr>))"
  by (auto simp: OnIPIdentityCacheChange_def bpfMap_Update_def call_def logDebug_def logWarning_def
      Let_def bytes_def copy_zero4 dest: To4_length split: option.splits)

lemma Delete_unfold:
  "OnIPIdentityCacheChange env Delete cidr oldHostIP newHostIP oldID newID s =
     (let key = NewKey env (ipnet_IP cidr) (ipnet_Mask cidr)
      in (case deleteErr env key of
            Some e \<Rightarrow> s\<lparr>trace := trace s @ [DeleteCall key],
                        logged := logged s @ [(Debug, ''Daemon notified of IP-Identity cache state change''),
                                              (Warning, ''unable to delete from bpf map'')]\<rparr>
          | None \<Rightarrow> s\<lparr>bpfMap := (bpfMap s)(key := None),
                      trace := trace s @ [DeleteCall key],
                      logged := logged s @ [(Debug, ''Daemon notified of IP-Identity cache state change'')]\<rparr>))"
  by (auto simp: OnIPIdentityCacheChange_def bpfMap_Delete_def call_def logDebug_def logWarning_def
      Let_def split: option.splits)

lemma Other_unfold:
  "OnIPIdentityCacheChange env (OtherModification m) cidr oldHostIP newHostIP oldID newID s =
     s\<lparr>logged := logged s @ [(Debug, ''Daemon notified of IP-Identity cache state change''),
                             (Warning, ''cache modification type not supported'')]\<rparr>"
  by (simp add: OnIPIdentityCacheChange_def logDebug_def logWarning_def)

text \<open>
  Claim C2. An Upsert issues one \<^verbatim>\<open>Update\<close> on the key derived from the prefix; the
  value \<open>v\<close> it writes has the new identity. If the new host IP is present, has the
  4-byte form \<open>h4\<close>, and \<open>h4\<close> is not equal to the node's external IPv4 address, the
  tunnel endpoint of \<open>v\<close> is \<open>h4\<close>. If the new host IP is absent, or its 4-byte form is
  equal to the external address, the tunnel endpoint is all-zero. Where the update
  succeeds, \<open>v\<close> is the entry of the map under that key.
\<close>

theorem Upsert_tunnel_endpoint:
  assumes "s' = OnIPIdentityCacheChange env Upsert cidr oldHostIP newHostIP oldID newID s"
    and "key = NewKey env (ipnet_IP cidr) (ipnet_Mask cidr)"
  shows "\<exists>v. trace s' = trace s @ [UpdateCall key v]
            \<and> (updateErr env key v = None \<longrightarrow> bpfMap s' key = Some v)
            \<and> SecurityIdentity v = newID
            \<and> (newHostIP \<noteq> None \<and> To4 newHostIP = Some h4
                 \<and> \<not> Equal (Some h4) (GetExternalIPv4 env)
               \<longrightarrow> TunnelEndpoint v = h4 \<and> length h4 = 4)
            \<and> (newHostIP = None
                 \<or> (To4 newHostIP = Some h4 \<and> Equal (Some h4) (GetExternalIPv4 env))
               \<longrightarrow> TunnelEndpoint v = zeroTunnelEndpoint)"
  unfolding assms Upsert_unfold
  by (auto simp: Let_def bytes_def To4_length split: option.splits)

text \<open>
  The theorem at two inputs: the prefix 10.0.0.0/24 with host 203.0.113.5 and identity
  1000 on the node 198.51.100.1 gets the tunnel endpoint 203.0.113.5; with the node's
  own address as host it gets the zero endpoint.
\<close>

theorem Upsert_tunnel_endpoint_witness:
  "(\<exists>v. trace (OnIPIdentityCacheChange listenerEnv Upsert prefix24 None host16 None 1000 emptyState)
           = [UpdateCall (Some [10, 0, 0, 0], Some [255, 255, 255, 0]) v]
       \<and> bpfMap (OnIPIdentityCacheChange listenerEnv Upsert prefix24 None host16 None 1000 emptyState)
           (Some [10, 0, 0, 0], Some [255, 255, 255, 0]) = Some v
       \<and> SecurityIdentity v = 1000 \<and> TunnelEndpoint v = [203, 0, 113, 5])
   \<and> (\<exists>v. trace (OnIPIdentityCacheChange listenerEnv Upsert prefix24 None (Some [198, 51, 100, 1]) None 1000 emptyState)
           = [UpdateCall (Some [10, 0, 0, 0], Some [255, 255, 255, 0]) v]
       \<and> SecurityIdentity v = 1000 \<and> TunnelEndpoint v = [0, 0, 0, 0])"
proof -
  have t: "To4 host16 = Some [203, 0, 113, 5]"
    by (simp add: To4_def host16_def bytes_def IPv4len_def IPv6len_def isZeros_def)
  have ne: "\<not> Equal (Some [203, 0, 113, 5]) (GetExternalIPv4 listenerEnv)"
    by (simp add: Equal_def listenerEnv_def bytes_def)
  have t2: "To4 (Some [198, 51, 100, 1]) = Some [198, 51, 100, 1]"
    by (simp add: To4_def bytes_def IPv4len_def)
  have e2: "Equal (Some [198, 51, 100, 1]) (GetExternalIPv4 listenerEnv)"
    by (simp add: Equal_def listenerEnv_def bytes_def)
  have k: "NewKey listenerEnv (ipnet_IP prefix24) (ipnet_Mask prefix24)
             = (Some [10, 0, 0, 0], Some [255, 255, 255, 0])"
    by (simp add: listenerEnv_def prefix24_def)
  have u: "\<And>v. updateErr listenerEnv (Some [10, 0, 0, 0], Some [255, 255, 255, 0]) v = None"
    by (simp add: listenerEnv_def)
  have h: "host16 \<noteq> None" by (simp add: host16_def)
  show ?thesis
    using Upsert_tunnel_endpoint [where env = listenerEnv and cidr = prefix24 and oldHostIP = None
          and newHostIP = host16 and oldID = None and newID = 1000 and s = emptyState
          and ?h4.0 = "[203, 0, 113, 5]", OF refl k [symmetric]]
      Upsert_tunnel_endpoint [where env = listenerEnv and cidr = prefix24 and oldHostIP = None
          and newHostIP = "Some [198, 51, 100, 1]" and oldID = None and newID = 1000
          and s = emptyState and ?h4.0 = "[198, 51, 100, 1]", OF refl k [symmetric]]
      t ne t2 e2 u h
    by (simp add: emptyState_def zeroTunnelEndpoint_def) blast
qed

text \<open>
  Claim C10. An Upsert whose new host IP is present but has no 4-byte form writes the
  zero tunnel endpoint, whatever the node's external address is.
\<close>

theorem Upsert_no_4byte_form:
  assumes "newHostIP \<noteq> None" and "To4 newHostIP = None"
    and "s' = OnIPIdentityCacheChange env Upsert cidr oldHostIP newHostIP oldID newID s"
    and "key = NewKey env (ipnet_IP cidr) (ipnet_Mask cidr)"
    and "v = \<lparr>SecurityIdentity = newID, TunnelEndpoint = zeroTunnelEndpoint\<rparr>"
  shows "trace s' = trace s @ [UpdateCall key v]
       \<and> (updateErr env key v = None \<longrightarrow> bpfMap s' key = Some v)"
  unfolding assms(3-5) Upsert_unfold using assms(1,2)
  by (simp add: Let_def split: option.splits)

text \<open>
  The host 2001:db8::1 has no 4-byte form and is not equal to the external address
  198.51.100.1; the entry written for it has the zero endpoint.
\<close>

theorem Upsert_no_4byte_form_witness:
  "hostV6 \<noteq> None \<and> To4 hostV6 = None \<and> \<not> Equal hostV6 (GetExternalIPv4 listenerEnv)
   \<and> trace (OnIPIdentityCacheChange listenerEnv Upsert prefix24 None hostV6 None 1000 emptyState)
       = [UpdateCall (Some [10, 0, 0, 0], Some [255, 255, 255, 0])
            \<lparr>SecurityIdentity = 1000, TunnelEndpoint = [0, 0, 0, 0]\<rparr>]
   \<and> bpfMap (OnIPIdentityCacheChange listenerEnv Upsert prefix24 None hostV6 None 1000 emptyState)
        (Some [10, 0, 0, 0], Some [255, 255, 255, 0])
       = Some \<lparr>SecurityIdentity = 1000, TunnelEndpoint = [0, 0, 0, 0]\<rparr>"
proof -
  have h: "hostV6 \<noteq> None" by (simp add: hostV6_def)
  have t: "To4 hostV6 = None"
    by (simp add: To4_def hostV6_def bytes_def IPv4len_def IPv6len_def isZeros_def)
  have ne: "\<not> Equal hostV6 (GetExternalIPv4 listenerEnv)"
    by (simp add: Equal_def hostV6_def listenerEnv_def bytes_def IPv4len_def IPv6len_def
        v4InV6Prefix_def)
  have k: "NewKey listenerEnv (ipnet_IP prefix24) (ipnet_Mask prefix24)
             = (Some [10, 0, 0, 0], Some [255, 255, 255, 0])"
    by (simp add: listenerEnv_def prefix24_def)
  have u: "\<And>v. updateErr listenerEnv (Some [10, 0, 0, 0], Some [255, 255, 255, 0]) v = None"
    by (simp add: listenerEnv_def)
  show ?thesis
    using Upsert_no_4byte_form [OF h t refl k [symmetric] refl, of None None 1000 emptyState]
      h t ne u
    by (simp add: emptyState_def zeroTunnelEndpoint_def)
qed

text \<open>
  Claim C9. The state the listener leaves, the content of the map included, does not
  depend on the old host IP or the old identity: two invocations that agree on the
  modification, the prefix, the new host IP and the new identity give the same result.
\<close>

theorem OnIPIdentityCacheChange_ignores_old:
  "OnIPIdentityCacheChange env modType cidr oldHostIP newHostIP oldID newID s
     = OnIPIdentityCacheChange env modType cidr oldHostIP' newHostIP oldID' newID s"
  by (simp add: OnIPIdentityCacheChange_def)

text \<open>
  Claim C6. \<open>OnIPIdentityCacheChange\<close> has no error result: whatever happens, it
  returns the successor state to its caller. An Upsert makes exactly one \<^verbatim>\<open>Update\<close>
  call and a Delete exactly one \<^verbatim>\<open>Delete\<close> call (no retry); when that call fails,
  a warning is logged and the map is as before. Any other modification kind makes no
  call on the map, leaves it unchanged and logs a warning.
\<close>

theorem OnIPIdentityCacheChange_swallows_errors:
  assumes "s' = OnIPIdentityCacheChange env modType cidr oldHostIP newHostIP oldID newID s"
    and "key = NewKey env (ipnet_IP cidr) (ipnet_Mask cidr)"
  shows "(modType = Upsert \<longrightarrow>
           (\<exists>v. trace s' = trace s @ [UpdateCall key v]
               \<and> (updateErr env key v \<noteq> None \<longrightarrow>
                    bpfMap s' = bpfMap s
                  \<and> logged s' = logged s @ [(Debug, ''Daemon notified of IP-Identity cache state change''),
                                             (Warning, ''unable to update bpf map'')])))
       \<and> (modType = Delete \<longrightarrow>
           trace s' = trace s @ [DeleteCall key]
         \<and> (deleteErr env key \<noteq> None \<longrightarrow>
              bpfMap s' = bpfMap s
            \<and> logged s' = logged s @ [(Debug, ''Daemon notified of IP-Identity cache state change''),
                                       (Warning, ''unable to delete from bpf map'')]))
       \<and> (modType \<noteq> Upsert \<and> modType \<noteq> Delete \<longrightarrow>
           trace s' = trace s \<and> bpfMap s' = bpfMap s
         \<and> logged s' = logged s @ [(Debug, ''Daemon notified of IP-Identity cache state change''),
                                    (Warning, ''cache modification type not supported'')])"
proof (cases modType)
  case Upsert
  then show ?thesis unfolding assms Upsert Upsert_unfold
    by (auto simp: Let_def split: option.splits)
next
  case Delete
  then show ?thesis unfolding assms Delete Delete_unfold
    by (auto simp: Let_def split: option.splits)
next
  case (OtherModification m)
  then show ?thesis unfolding assms OtherModification Other_unfold by simp
qed

text \<open>
  On a map that rejects every point operation: a failed Upsert, a failed Delete and an
  unknown modification kind each leave the map empty and end with a warning.
\<close>

theorem OnIPIdentityCacheChange_swallows_errors_witness:
  "(\<exists>v. trace (OnIPIdentityCacheChange failingEnv Upsert prefix24 None host16 None 1000 emptyState)
           = [UpdateCall (Some [10, 0, 0, 0], Some [255, 255, 255, 0]) v]
       \<and> updateErr failingEnv (Some [10, 0, 0, 0], Some [255, 255, 255, 0]) v \<noteq> None)
   \<and> bpfMap (OnIPIdentityCacheChange failingEnv Upsert prefix24 None host16 None 1000 emptyState)
       = Map.empty
   \<and> logged (OnIPIdentityCacheChange failingEnv Upsert prefix24 None host16 None 1000 emptyState)
       = [(Debug, ''Daemon notified of IP-Identity cache state change''),
          (Warning, ''unable to update bpf map'')]
   \<and> deleteErr failingEnv (Some [10, 0, 0, 0], Some [255, 255, 255, 0]) \<noteq> None
   \<and> trace (OnIPIdentityCacheChange failingEnv Delete prefix24 None None None 0 emptyState)
       = [DeleteCall (Some [10, 0, 0, 0], Some [255, 255, 255, 0])]
   \<and> logged (OnIPIdentityCacheChange failingEnv Delete prefix24 None None None 0 emptyState)
       = [(Debug, ''Daemon notified of IP-Identity cache state change''),
          (Warning, ''unable to delete from bpf map'')]
   \<and> trace (OnIPIdentityCacheChange failingEnv (OtherModification ''Sync'') prefix24 None None None 0 emptyState)
       = []
   \<and> bpfMap (OnIPIdentityCacheChange failingEnv (OtherModification ''Sync'') prefix24 None None None 0 emptyState)
       = Map.empty
   \<and> logged (OnIPIdentityCacheChange failingEnv (OtherModification ''Sync'') prefix24 None None None 0 emptyState)
       = [(Debug, ''Daemon notified of IP-Identity cache state change''),
          (Warning, ''cache modification type not supported'')]"
proof -
  have k: "NewKey failingEnv (ipnet_IP prefix24) (ipnet_Mask prefix24)
             = (Some [10, 0, 0, 0], Some [255, 255, 255, 0])"
    by (simp add: failingEnv_def listenerEnv_def prefix24_def)
  have u: "\<And>v. updateErr failingEnv (Some [10, 0, 0, 0], Some [255, 255, 255, 0]) v \<noteq> None"
    by (simp add: failingEnv_def listenerEnv_def)
  have d: "deleteErr failingEnv (Some [10, 0, 0, 0], Some [255, 255, 255, 0]) \<noteq> None"
    by (simp add: failingEnv_def listenerEnv_def)
  show ?thesis
    using OnIPIdentityCacheChange_swallows_errors [where env = failingEnv and modType = Upsert
          and cidr = prefix24 and oldHostIP = None and newHostIP = host16 and oldID = None
          and newID = 1000 and s = emptyState, OF refl k [symmetric]]
      OnIPIdentityCacheChange_swallows_errors [where env = failingEnv and modType = Delete
          and cidr = prefix24 and oldHostIP = None and newHostIP = None and oldID = None
          and newID = 0 and s = emptyState, OF refl k [symmetric]]
      OnIPIdentityCacheChange_swallows_errors [where env = failingEnv
          and modType = "OtherModification ''Sync''"
          and cidr = prefix24 and oldHostIP = None and newHostIP = None and oldID = None
          and newID = 0 and s = emptyState, OF refl k [symmetric]]
      u d
    by (simp add: emptyState_def)
qed

text \<open>
  Claim C7. Applying the same Upsert twice leaves the map as applying it once does. Both
  applications pass the same value \<open>v\<close> to \<^verbatim>\<open>Update\<close>, and a successful update
  replaces whatever was stored under the key by \<open>v\<close>.
\<close>

theorem Upsert_idempotent:
  assumes "s1 = OnIPIdentityCacheChange env Upsert cidr oldHostIP newHostIP oldID newID s"
    and "s2 = OnIPIdentityCacheChange env Upsert cidr oldHostIP newHostIP oldID newID s1"
    and "key = NewKey env (ipnet_IP cidr) (ipnet_Mask cidr)"
  shows "bpfMap s2 = bpfMap s1
       \<and> (\<exists>v. trace s2 = trace s @ [UpdateCall key v, UpdateCall key v]
            \<and> (updateErr env key v = None \<longrightarrow> bpfMap s1 = (bpfMap s)(key \<mapsto> v)))"
  unfolding assms Upsert_unfold
  by (auto simp: Let_def split: option.splits)

text \<open>
  The Upsert of 10.0.0.0/24 with host 203.0.113.5 and identity 1000, applied once and
  twice to the empty map.
\<close>

theorem Upsert_idempotent_witness:
  "bpfMap (OnIPIdentityCacheChange listenerEnv Upsert prefix24 None host16 None 1000
            (OnIPIdentityCacheChange listenerEnv Upsert prefix24 None host16 None 1000 emptyState))
     = bpfMap (OnIPIdentityCacheChange listenerEnv Upsert prefix24 None host16 None 1000 emptyState)
   \<and> bpfMap (OnIPIdentityCacheChange listenerEnv Upsert prefix24 None host16 None 1000 emptyState)
     = [(Some [10, 0, 0, 0], Some [255, 255, 255, 0])
          \<mapsto> \<lparr>SecurityIdentity = 1000, TunnelEndpoint = [203, 0, 113, 5]\<rparr>]"
proof -
  have t: "To4 host16 = Some [203, 0, 113, 5]"
    by (simp add: To4_def host16_def bytes_def IPv4len_def IPv6len_def isZeros_def)
  have ne: "\<not> Equal (Some [203, 0, 113, 5]) (GetExternalIPv4 listenerEnv)"
    by (simp add: Equal_def listenerEnv_def bytes_def)
  have h: "host16 \<noteq> None" by (simp add: host16_def)
  have s1: "OnIPIdentityCacheChange listenerEnv Upsert prefix24 None host16 None 1000 emptyState
     = \<lparr>bpfMap = [(Some [10, 0, 0, 0], Some [255, 255, 255, 0])
                    \<mapsto> \<lparr>SecurityIdentity = 1000, TunnelEndpoint = [203, 0, 113, 5]\<rparr>],
        trace = [UpdateCall (Some [10, 0, 0, 0], Some [255, 255, 255, 0])
                   \<lparr>SecurityIdentity = 1000, TunnelEndpoint = [203, 0, 113, 5]\<rparr>],
        logged = [(Debug, ''Daemon notified of IP-Identity cache state change'')]\<rparr>"
    using t ne h
    by (simp add: Upsert_unfold Let_def bytes_def emptyState_def listenerEnv_def prefix24_def)
  show ?thesis
    using Upsert_idempotent [where env = listenerEnv and cidr = prefix24 and oldHostIP = None
          and newHostIP = host16 and oldID = None and newID = 1000 and s = emptyState,
          OF refl refl refl] s1
    by simp
qed



section \<open>Garbage collection\<close>

text \<open>The deletion loop: what it returns, what it leaves in the map, which calls it makes.\<close>

lemma bpfMap_Delete_ok:
  "deleteErr env k = None \<Longrightarrow>
   bpfMap_Delete env k s = (None, s\<lparr>trace := trace s @ [DeleteCall k], bpfMap := (bpfMap s)(k := None)\<rparr>)"
  by (simp add: bpfMap_Delete_def call_def Let_def)

lemma bpfMap_Delete_fails:
  "deleteErr env k = Some e \<Longrightarrow>
   bpfMap_Delete env k s = (Some e, s\<lparr>trace := trace s @ [DeleteCall k]\<rparr>)"
  by (simp add: bpfMap_Delete_def call_def Let_def)

lemma deleteKeys_first_failure:
  assumes "\<forall>k'\<in>set pre. deleteErr env k' = None" and "deleteErr env k = Some e"
  shows "fst (deleteKeys env (pre @ k # post) s) = Some (DeleteError k e)"
    and "bpfMap (snd (deleteKeys env (pre @ k # post) s)) = (\<lambda>x. if x \<in> set pre then None else bpfMap s x)"
    and "trace (snd (deleteKeys env (pre @ k # post) s)) = trace s @ map DeleteCall pre @ [DeleteCall k]"
  using assms
proof (induction pre arbitrary: s)
  case Nil
  { case 1 then show ?case by (simp add: bpfMap_Delete_fails logDebug_def) }
  { case 2 then show ?case by (simp add: bpfMap_Delete_fails logDebug_def) }
  { case 3 then show ?case by (simp add: bpfMap_Delete_fails logDebug_def) }
next
  case (Cons a pre)
  { case 1 then show ?case using Cons.IH(1) by (simp add: bpfMap_Delete_ok logDebug_def) }
  { case 2 then show ?case using Cons.IH(2) by (auto simp: bpfMap_Delete_ok logDebug_def fun_eq_iff) }
  { case 3 then show ?case using Cons.IH(3) by (simp add: bpfMap_Delete_ok logDebug_def) }
qed

lemma deleteKeys_all_ok:
  assumes "\<forall>k\<in>set ks. deleteErr env k = None"
  shows "fst (deleteKeys env ks s) = None"
    and "bpfMap (snd (deleteKeys env ks s)) = (\<lambda>x. if x \<in> set ks then None else bpfMap s x)"
    and "trace (snd (deleteKeys env ks s)) = trace s @ map DeleteCall ks"
  using assms
proof (induction ks arbitrary: s)
  case Nil
  { case 1 then show ?case by simp }
  { case 2 then show ?case by simp }
  { case 3 then show ?case by simp }
next
  case (Cons a ks)
  { case 1 then show ?case using Cons.IH(1) by (simp add: bpfMap_Delete_ok logDebug_def) }
  { case 2 then show ?case using Cons.IH(2) by (auto simp: bpfMap_Delete_ok logDebug_def fun_eq_iff) }
  { case 3 then show ?case using Cons.IH(3) by (simp add: bpfMap_Delete_ok logDebug_def) }
qed

lemma deleteKeys_trace:
  "\<exists>ks' rest. ks = ks' @ rest
     \<and> trace (snd (deleteKeys env ks s)) = trace s @ map DeleteCall ks'"
proof (induction ks arbitrary: s)
  case Nil
  then show ?case by simp
next
  case (Cons k ks)
  show ?case
  proof (cases "deleteErr env k")
    case None
    let ?s2 = "snd (bpfMap_Delete env k (logDebug ''deleting from ipcache BPF map'' s))"
    from Cons [of ?s2] obtain ks' rest where
      r: "ks = ks' @ rest" "trace (snd (deleteKeys env ks ?s2)) = trace ?s2 @ map DeleteCall ks'"
      by blast
    have "k # ks = (k # ks') @ rest" using r by simp
    moreover have "trace (snd (deleteKeys env (k # ks) s)) = trace s @ map DeleteCall (k # ks')"
      using r None by (simp add: bpfMap_Delete_ok logDebug_def)
    ultimately show ?thesis by blast
  next
    case (Some e)
    have "k # ks = [k] @ ks" by simp
    moreover have "trace (snd (deleteKeys env (k # ks) s)) = trace s @ map DeleteCall [k]"
      using Some by (simp add: bpfMap_Delete_fails logDebug_def)
    ultimately show ?thesis by blast
  qed
qed

text \<open>\<open>garbageCollect\<close> with its calls on the collaborators written out.\<close>

lemma garbageCollect_unfold:
  "garbageCollect env s =
     (let s2 = s\<lparr>logged := logged s @ [(Debug, ''Running garbage collection for BPF IPCache'')],
                 trace := trace s @ [RLock, DumpCall]\<rparr>;
          keysToRemove = foldl (updateStaleEntriesFunction env) Map.empty (dumpScan env (bpfMap s))
      in case dumpErr env of
           Some e \<Rightarrow> (Some (DumpError e), call RUnlock s2)
         | None \<Rightarrow> (fst (deleteKeys env (rangeValues env keysToRemove) s2),
                    call RUnlock (snd (deleteKeys env (rangeValues env keysToRemove) s2))))"
  by (simp add: garbageCollect_def garbageCollect_locked_def bpfMap_DumpWithCallback_def
      call_def logDebug_def Let_def split_beta split: option.splits)

lemma deletesWhileLocked_deletes:
  "deletesWhileLocked True (map DeleteCall ks @ [RUnlock]) = ks"
  by (induction ks) simp_all

text \<open>The callback and its fold over the visited entries.\<close>

lemma updateStaleEntriesFunction_step:
  "updateStaleEntriesFunction env m (k, v) =
     (if \<not> snd (LookupByPrefixRLocked env (KeyString env k))
         \<and> (Source (fst (LookupByPrefixRLocked env (KeyString env k))) = FromKVStore
            \<or> Source (fst (LookupByPrefixRLocked env (KeyString env k))) = FromAgentLocal)
      then m(KeyString env k \<mapsto> k) else m)"
  by (simp add: updateStaleEntriesFunction_def Let_def split_beta split: Source.splits)

lemma foldl_marks_dom:
  "p \<in> dom (foldl (updateStaleEntriesFunction env) m kvs) \<longleftrightarrow>
     p \<in> dom m
     \<or> (p \<in> KeyString env ` fst ` set kvs
        \<and> \<not> snd (LookupByPrefixRLocked env p)
        \<and> (Source (fst (LookupByPrefixRLocked env p)) = FromKVStore
           \<or> Source (fst (LookupByPrefixRLocked env p)) = FromAgentLocal))"
proof (induction kvs arbitrary: m)
  case Nil
  then show ?case by simp
next
  case (Cons kv kvs)
  obtain k v where kv: "kv = (k, v)" by (cases kv)
  show ?case
    unfolding kv foldl_Cons Cons.IH updateStaleEntriesFunction_step
    by auto
qed

lemma foldl_marks_value:
  "foldl (updateStaleEntriesFunction env) m kvs p = Some k' \<Longrightarrow>
     m p = Some k' \<or> (k' \<in> fst ` set kvs \<and> KeyString env k' = p)"
proof (induction kvs arbitrary: m)
  case Nil
  then show ?case by simp
next
  case (Cons kv kvs)
  obtain k v where kv: "kv = (k, v)" by (cases kv)
  from Cons.prems have
    "foldl (updateStaleEntriesFunction env) (updateStaleEntriesFunction env m (k, v)) kvs p = Some k'"
    by (simp add: kv)
  from Cons.IH [OF this] show ?case
    unfolding kv updateStaleEntriesFunction_step
    by (auto split: if_splits)
qed

lemma gc_scan:
  "dumpScan gcEnv (bpfMap gcState)
     = [(''10.0.0.0/24'', gcValue), (''10.0.1.0/24'', gcValue),
        (''10.0.2.0/24'', gcValue), (''10.0.3.0/24'', gcValue)]"
  by (simp add: gcEnv_def gcState_def gcKeys_def List.map_filter_def)

lemma gc_marks:
  "foldl (updateStaleEntriesFunction gcEnv) Map.empty (dumpScan gcEnv (bpfMap gcState))
     = [''10.0.1.0/24'' \<mapsto> ''10.0.1.0/24'', ''10.0.2.0/24'' \<mapsto> ''10.0.2.0/24'',
        ''10.0.3.0/24'' \<mapsto> ''10.0.3.0/24'']"
  by (simp add: gcEnv_def gcState_def gcKeys_def gcLookup_def updateStaleEntriesFunction_def
      List.map_filter_def Let_def)

lemma gc_range:
  "rangeValues gcEnv (foldl (updateStaleEntriesFunction gcEnv) Map.empty (dumpScan gcEnv (bpfMap gcState)))
     = [''10.0.3.0/24'', ''10.0.2.0/24'', ''10.0.1.0/24'']"
  unfolding gc_marks
  by (simp add: rangeValues_def gcEnv_def gcKeys_def List.map_filter_def)

text \<open>
  Claim C1. Let \<open>keysToRemove\<close> be what the callback has collected over the entries a
  sweep visits, and let \<open>(i, exists)\<close> be the result of looking up the canonical string
  of a visited key. That string is marked for removal if and only if the lookup reports
  the entry absent and the source of the returned entry is the key-value store or the
  local agent; in particular an entry that exists is never marked. The key stored under
  a marked string is a visited key with that string.
\<close>

theorem updateStaleEntriesFunction_marks:
  assumes "keysToRemove = foldl (updateStaleEntriesFunction env) Map.empty visited"
    and "(k, v) \<in> set visited"
    and "LookupByPrefixRLocked env (KeyString env k) = (i, exists)"
  shows "(KeyString env k \<in> dom keysToRemove \<longleftrightarrow>
            \<not> exists \<and> (Source i = FromKVStore \<or> Source i = FromAgentLocal))
       \<and> (exists \<longrightarrow> KeyString env k \<notin> dom keysToRemove)
       \<and> (\<forall>k'. keysToRemove (KeyString env k) = Some k' \<longrightarrow>
             k' \<in> fst ` set visited \<and> KeyString env k' = KeyString env k)"
proof -
  have in_img: "KeyString env k \<in> KeyString env ` fst ` set visited"
    using assms(2) by force
  have d: "KeyString env k \<in> dom keysToRemove \<longleftrightarrow>
            \<not> exists \<and> (Source i = FromKVStore \<or> Source i = FromAgentLocal)"
    unfolding assms(1) foldl_marks_dom using in_img assms(3) by simp
  have v: "\<forall>k'. keysToRemove (KeyString env k) = Some k' \<longrightarrow>
             k' \<in> fst ` set visited \<and> KeyString env k' = KeyString env k"
    unfolding assms(1) using foldl_marks_value [of env Map.empty visited "KeyString env k"]
    by auto
  from d v show ?thesis by blast
qed

text \<open>
  In the sweep over four entries, 10.0.0.0/24 exists and is not marked; 10.0.1.0/24 is
  absent and is marked when the miss carries the key-value store as source, and is not
  marked when it carries another source.
\<close>

theorem updateStaleEntriesFunction_marks_witness:
  "''10.0.0.0/24'' \<notin> dom (foldl (updateStaleEntriesFunction gcEnv) Map.empty (dumpScan gcEnv (bpfMap gcState)))
   \<and> ''10.0.1.0/24'' \<in> dom (foldl (updateStaleEntriesFunction gcEnv) Map.empty (dumpScan gcEnv (bpfMap gcState)))
   \<and> ''10.0.1.0/24'' \<notin> dom (foldl (updateStaleEntriesFunction gcEnvOther) Map.empty (dumpScan gcEnv (bpfMap gcState)))"
proof -
  have m0: "(''10.0.0.0/24'', gcValue) \<in> set (dumpScan gcEnv (bpfMap gcState))"
    unfolding gc_scan by simp
  have m1: "(''10.0.1.0/24'', gcValue) \<in> set (dumpScan gcEnv (bpfMap gcState))"
    unfolding gc_scan by simp
  have l0: "LookupByPrefixRLocked gcEnv (KeyString gcEnv ''10.0.0.0/24'')
              = (\<lparr>ID = 1000, Source = FromKVStore\<rparr>, True)"
    by (simp add: gcEnv_def gcLookup_def)
  have l1: "LookupByPrefixRLocked gcEnv (KeyString gcEnv ''10.0.1.0/24'')
              = (\<lparr>ID = 0, Source = FromKVStore\<rparr>, False)"
    by (simp add: gcEnv_def gcLookup_def)
  have l2: "LookupByPrefixRLocked gcEnvOther (KeyString gcEnvOther ''10.0.1.0/24'')
              = (\<lparr>ID = 0, Source = FromOther 0\<rparr>, False)"
    by (simp add: gcEnvOther_def gcEnv_def gcLookupOther_def)
  have ks: "KeyString gcEnv = (\<lambda>k. k)" "KeyString gcEnvOther = (\<lambda>k. k)"
    by (simp_all add: gcEnvOther_def gcEnv_def)
  show ?thesis
    using updateStaleEntriesFunction_marks [OF refl m0 l0]
      updateStaleEntriesFunction_marks [OF refl m1 l1]
      updateStaleEntriesFunction_marks [OF refl m1 l2]
    by (simp add: ks)
qed

text \<open>
  Claim C4. If the scan returns an error, \<open>garbageCollect\<close> returns an error, the map
  is as before, and the sweep has made no point delete: its calls are the lock, the
  scan and the unlock.
\<close>

theorem garbageCollect_dump_failure:
  assumes "dumpErr env = Some e"
  shows "fst (garbageCollect env s) = Some (DumpError e)
       \<and> bpfMap (snd (garbageCollect env s)) = bpfMap s
       \<and> trace (snd (garbageCollect env s)) = trace s @ [RLock, DumpCall, RUnlock]"
  using assms by (simp add: garbageCollect_unfold call_def Let_def)

text \<open>A scan that fails after visiting three entries.\<close>

theorem garbageCollect_dump_failure_witness:
  "dumpErr gcEnvScanFails = Some ''EIO''
   \<and> dumpScan gcEnvScanFails (bpfMap gcState)
       = [(''10.0.0.0/24'', gcValue), (''10.0.1.0/24'', gcValue), (''10.0.2.0/24'', gcValue)]
   \<and> fst (garbageCollect gcEnvScanFails gcState) = Some (DumpError ''EIO'')
   \<and> bpfMap (snd (garbageCollect gcEnvScanFails gcState)) = bpfMap gcState
   \<and> trace (snd (garbageCollect gcEnvScanFails gcState)) = [RLock, DumpCall, RUnlock]"
proof -
  have e: "dumpErr gcEnvScanFails = Some ''EIO''"
    by (simp add: gcEnvScanFails_def)
  have sc: "dumpScan gcEnvScanFails (bpfMap gcState)
       = [(''10.0.0.0/24'', gcValue), (''10.0.1.0/24'', gcValue), (''10.0.2.0/24'', gcValue)]"
    by (simp add: gcEnvScanFails_def gc_scan)
  have t0: "trace gcState = []" by (simp add: gcState_def)
  show ?thesis
    using garbageCollect_dump_failure [OF e, of gcState] e sc t0 by simp
qed

text \<open>
  Claim C5. Suppose the scan succeeds and \<^verbatim>\<open>range\<close> yields the marked keys as
  \<open>pre\<close>, then \<open>k\<close>, then \<open>post\<close>, where the deletes of \<open>pre\<close> succeed and the delete
  of \<open>k\<close> fails. Then \<open>garbageCollect\<close> returns the error of \<open>k\<close>, no delete is issued
  for \<open>post\<close>, and the entries of \<open>pre\<close> stay removed while every other entry is as
  before.
\<close>

theorem garbageCollect_first_delete_failure:
  assumes "dumpErr env = None"
    and "rangeValues env (foldl (updateStaleEntriesFunction env) Map.empty (dumpScan env (bpfMap s)))
           = pre @ k # post"
    and "\<forall>k'\<in>set pre. deleteErr env k' = None"
    and "deleteErr env k = Some e"
  shows "fst (garbageCollect env s) = Some (DeleteError k e)
       \<and> trace (snd (garbageCollect env s))
           = trace s @ [RLock, DumpCall] @ map DeleteCall pre @ [DeleteCall k, RUnlock]
       \<and> bpfMap (snd (garbageCollect env s)) = (\<lambda>x. if x \<in> set pre then None else bpfMap s x)"
  using assms(1,2) deleteKeys_first_failure [OF assms(3,4)]
  by (simp add: garbageCollect_unfold call_def Let_def cong: if_cong)

text \<open>
  Three keys are marked and walked as 10.0.3.0/24, 10.0.2.0/24, 10.0.1.0/24; the second
  delete fails. The first key is gone, the other two are still in the map.
\<close>

theorem garbageCollect_first_delete_failure_witness:
  "fst (garbageCollect gcEnvDeleteFails gcState) = Some (DeleteError ''10.0.2.0/24'' ''EPERM'')
   \<and> trace (snd (garbageCollect gcEnvDeleteFails gcState))
       = [RLock, DumpCall, DeleteCall ''10.0.3.0/24'', DeleteCall ''10.0.2.0/24'', RUnlock]
   \<and> bpfMap (snd (garbageCollect gcEnvDeleteFails gcState)) ''10.0.3.0/24'' = None
   \<and> bpfMap (snd (garbageCollect gcEnvDeleteFails gcState)) ''10.0.2.0/24'' = Some gcValue
   \<and> bpfMap (snd (garbageCollect gcEnvDeleteFails gcState)) ''10.0.1.0/24'' = Some gcValue"
proof -
  have e: "dumpErr gcEnvDeleteFails = None"
    by (simp add: gcEnvDeleteFails_def gcEnv_def)
  have u: "updateStaleEntriesFunction gcEnvDeleteFails = updateStaleEntriesFunction gcEnv"
    by (rule ext)+ (simp add: updateStaleEntriesFunction_def gcEnvDeleteFails_def)
  have ro: "rangeOrder gcEnvDeleteFails = rangeOrder gcEnv"
    "dumpScan gcEnvDeleteFails = dumpScan gcEnv"
    by (simp_all add: gcEnvDeleteFails_def)
  have r: "rangeValues gcEnvDeleteFails
             (foldl (updateStaleEntriesFunction gcEnvDeleteFails) Map.empty
                (dumpScan gcEnvDeleteFails (bpfMap gcState)))
           = [''10.0.3.0/24''] @ ''10.0.2.0/24'' # [''10.0.1.0/24'']"
    using gc_range by (simp add: u ro rangeValues_def)
  have p: "\<forall>k'\<in>set [''10.0.3.0/24'']. deleteErr gcEnvDeleteFails k' = None"
    by (simp add: gcEnvDeleteFails_def)
  have f: "deleteErr gcEnvDeleteFails ''10.0.2.0/24'' = Some ''EPERM''"
    by (simp add: gcEnvDeleteFails_def)
  show ?thesis
    using garbageCollect_first_delete_failure [OF e r p f]
    by (simp add: gcState_def)
qed

text \<open>
  Claim C3, as amended. \<open>garbageCollect\<close> takes the read lock before the scan and
  releases it by a deferred unlock when it returns: the calls of one invocation are the
  lock, the scan, the point deletes and then the unlock, so every point delete is
  issued while the lock is held.
\<close>

theorem garbageCollect_deletes_under_lock:
  "\<exists>ks. trace (snd (garbageCollect env s))
           = trace s @ [RLock, DumpCall] @ map DeleteCall ks @ [RUnlock]
      \<and> deletesWhileLocked False ([RLock, DumpCall] @ map DeleteCall ks @ [RUnlock]) = ks"
proof (cases "dumpErr env")
  case (Some e)
  then have "trace (snd (garbageCollect env s)) = trace s @ [RLock, DumpCall] @ map DeleteCall [] @ [RUnlock]"
    by (simp add: garbageCollect_unfold call_def Let_def)
  moreover have "deletesWhileLocked False ([RLock, DumpCall] @ map DeleteCall [] @ [RUnlock]) = ([] :: 'a list)"
    by simp
  ultimately show ?thesis by blast
next
  case None
  let ?s2 = "s\<lparr>logged := logged s @ [(Debug, ''Running garbage collection for BPF IPCache'')],
                 trace := trace s @ [RLock, DumpCall]\<rparr>"
  let ?ks = "rangeValues env (foldl (updateStaleEntriesFunction env) Map.empty (dumpScan env (bpfMap s)))"
  from deleteKeys_trace [of ?ks env ?s2] obtain ks' where
    r: "trace (snd (deleteKeys env ?ks ?s2)) = trace ?s2 @ map DeleteCall ks'"
    by blast
  have "trace (snd (garbageCollect env s)) = trace s @ [RLock, DumpCall] @ map DeleteCall ks' @ [RUnlock]"
    using None r by (simp add: garbageCollect_unfold call_def Let_def)
  moreover have "deletesWhileLocked False ([RLock, DumpCall] @ map DeleteCall ks' @ [RUnlock]) = ks'"
    by (simp add: deletesWhileLocked_deletes)
  ultimately show ?thesis by blast
qed

text \<open>
  Claim C3 as stated, that the lock is released before any point delete, fails on the
  sweep over four entries: its three deletes come before the unlock.
\<close>

theorem garbageCollect_unlock_before_delete_counterexample:
  "trace (snd (garbageCollect gcEnv gcState))
     = [RLock, DumpCall, DeleteCall ''10.0.3.0/24'', DeleteCall ''10.0.2.0/24'',
        DeleteCall ''10.0.1.0/24'', RUnlock]
   \<and> deletesWhileLocked False (trace (snd (garbageCollect gcEnv gcState))) \<noteq> []"
proof -
  have d: "\<And>k. deleteErr gcEnv k = None"
    by (simp add: gcEnv_def)
  have e: "dumpErr gcEnv = None" by (simp add: gcEnv_def)
  have t0: "trace gcState = []" by (simp add: gcState_def)
  have t: "trace (snd (garbageCollect gcEnv gcState))
     = [RLock, DumpCall, DeleteCall ''10.0.3.0/24'', DeleteCall ''10.0.2.0/24'',
        DeleteCall ''10.0.1.0/24'', RUnlock]"
    by (simp add: garbageCollect_unfold Let_def e gc_range d call_def t0 bpfMap_Delete_def
        logDebug_def)
  show ?thesis unfolding t by simp
qed

end
